theory Spec2Isabelle
  imports Main "HOL-Library.Word" "HOL-Library.Sublist" "HOL-Library.AList"
begin

section \<open>Porter YAML to PorterApp proto (Go package v2)\<close>

subsection \<open>Machine types\<close>

text \<open>
  Go's \<open>int\<close> is the 64-bit signed integer of the build targets, \<open>int32\<close> the 32-bit one;
  the conversion \<open>int32(x)\<close> keeps the low 32 bits. A \<open>float32\<close> is only ever copied by
  the code below, so it is carried as its IEEE-754 bit pattern.
\<close>

type_synonym go_int = "64 word"
type_synonym int32 = "32 word"
type_synonym float32 = "32 word"
type_synonym byte = "8 word"

definition int32_of_int :: "go_int \<Rightarrow> int32" where
  "int32_of_int x = ucast x"

subsection \<open>The structs of a Porter YAML file\<close>

record AutoScaling =
  Enabled :: bool
  MinInstances :: go_int
  MaxInstances :: go_int
  CpuThresholdPercent :: go_int
  MemoryThresholdPercent :: go_int

record Domains =
  Name :: string

record HealthCheck =
  Enabled :: bool
  HttpPath :: string

record Image =
  Repository :: string
  Tag :: string

record Build =
  Context :: string
  Method :: string
  Builder :: string
  Buildpacks :: "string list"
  Dockerfile :: string

text \<open>
  Pointer fields (\<open>*AutoScaling\<close>, \<open>*HealthCheck\<close>) are options: \<open>None\<close> is \<open>nil\<close>.
\<close>

record Service =
  Run :: string
  Type :: string
  Instances :: go_int
  CpuCores :: float32
  RamMegabytes :: go_int
  Port :: go_int
  Autoscaling :: "AutoScaling option"
  Domains :: "Domains list"
  HealthCheck :: "HealthCheck option"
  AllowConcurrent :: bool
  Cron :: string

text \<open>
  \<open>Services\<close> is a Go map that may be \<open>nil\<close>. A non-nil map is given as the list of its
  entries in the order in which \<open>range\<close> visits them (Go leaves that order open, so every
  order of the list is a possible run); its keys are distinct.
\<close>

record PorterYAML =
  Name :: string
  Services :: "(string \<times> Service) list option"
  Image :: "Image option"
  Build :: "Build option"
  Env :: "string \<rightharpoonup> string"
  Predeploy :: "Service option"

subsection \<open>The messages of package porterv1\<close>

text \<open>
  \<open>porterv1.ServiceType\<close> is an \<open>int32\<close> enumeration; the test data of the repository
  writes \<open>Type: 1\<close>, \<open>Type: 2\<close> and \<open>Type: 3\<close> for web, worker and job services.
\<close>

type_synonym ServiceType = int32

abbreviation SERVICE_TYPE_UNSPECIFIED :: ServiceType where
  "SERVICE_TYPE_UNSPECIFIED \<equiv> 0"

abbreviation SERVICE_TYPE_WEB :: ServiceType where
  "SERVICE_TYPE_WEB \<equiv> 1"

abbreviation SERVICE_TYPE_WORKER :: ServiceType where
  "SERVICE_TYPE_WORKER \<equiv> 2"

abbreviation SERVICE_TYPE_JOB :: ServiceType where
  "SERVICE_TYPE_JOB \<equiv> 3"

record porterv1_Autoscaling =
  Enabled :: bool
  MinInstances :: int32
  MaxInstances :: int32
  CpuThresholdPercent :: int32
  MemoryThresholdPercent :: int32

record porterv1_HealthCheck =
  Enabled :: bool
  HttpPath :: string

record porterv1_Domain =
  Name :: string

record porterv1_WebServiceConfig =
  Autoscaling :: "porterv1_Autoscaling option"
  HealthCheck :: "porterv1_HealthCheck option"
  Domains :: "porterv1_Domain list"

record porterv1_WorkerServiceConfig =
  Autoscaling :: "porterv1_Autoscaling option"

record porterv1_JobServiceConfig =
  AllowConcurrent :: bool
  Cron :: string

text \<open>The oneof \<open>Config\<close> of a service: at most one variant is populated.\<close>

datatype porterv1_isService_Config =
    Service_WebConfig porterv1_WebServiceConfig
  | Service_WorkerConfig porterv1_WorkerServiceConfig
  | Service_JobConfig porterv1_JobServiceConfig

record porterv1_Service =
  Run :: string
  Type :: ServiceType
  Instances :: int32
  CpuCores :: float32
  RamMegabytes :: int32
  Port :: int32
  Config :: "porterv1_isService_Config option"

record porterv1_Build =
  Context :: string
  Method :: string
  Builder :: string
  Buildpacks :: "string list"
  Dockerfile :: string

record porterv1_AppImage =
  Repository :: string
  Tag :: string

record porterv1_PorterApp =
  Name :: string
  Env :: "string \<rightharpoonup> string"
  Build :: "porterv1_Build option"
  Image :: "porterv1_AppImage option"
  Services :: "string \<rightharpoonup> porterv1_Service"
  Predeploy :: "porterv1_Service option"

subsection \<open>Errors\<close>

text \<open>
  Every error value the code builds: \<open>fmt.Errorf\<close> and \<open>errors.New\<close> with their message,
  and \<open>telemetry.Error(ctx, span, err, msg)\<close>, which wraps an optional cause.
\<close>

datatype error =
    YamlError string
  | InvalidServiceTypeString string
  | NoTypeAndNameUnparsable
  | InvalidServiceTypeEnum ServiceType
  | ServiceTypeUnspecified
  | TelemetryError "error option" string

subsection \<open>protoEnumFromType\<close>

text \<open>\<open>strings.Contains(s, substr)\<close>: \<open>substr\<close> occurs at some position of \<open>s\<close>.\<close>

fun strings_Contains :: "string \<Rightarrow> string \<Rightarrow> bool" where
  "strings_Contains [] substr = (substr = [])"
| "strings_Contains (c # s) substr = (prefix substr (c # s) \<or> strings_Contains s substr)"

definition protoEnumFromType :: "string \<Rightarrow> Service \<Rightarrow> error + ServiceType" where
  "protoEnumFromType name service =
     (if Service.Type service \<noteq> '''' then
        (if Service.Type service = ''web'' then Inr SERVICE_TYPE_WEB
         else if Service.Type service = ''worker'' then Inr SERVICE_TYPE_WORKER
         else if Service.Type service = ''job'' then Inr SERVICE_TYPE_JOB
         else Inl (InvalidServiceTypeString (Service.Type service)))
      else if strings_Contains name ''web'' then Inr SERVICE_TYPE_WEB
      else if strings_Contains name ''wkr'' then Inr SERVICE_TYPE_WORKER
      else if strings_Contains name ''job'' then Inr SERVICE_TYPE_JOB
      else Inl NoTypeAndNameUnparsable)"

subsection \<open>serviceProtoFromConfig\<close>

definition serviceProtoFromConfig :: "Service \<Rightarrow> ServiceType \<Rightarrow> error + porterv1_Service" where
  "serviceProtoFromConfig service serviceType =
     (let serviceProto = \<lparr>
            porterv1_Service.Run = Service.Run service,
            Type = serviceType,
            Instances = int32_of_int (Service.Instances service),
            CpuCores = Service.CpuCores service,
            RamMegabytes = int32_of_int (Service.RamMegabytes service),
            Port = int32_of_int (Service.Port service),
            Config = None \<rparr>
      in
      if serviceType = SERVICE_TYPE_UNSPECIFIED then Inl ServiceTypeUnspecified
      else if serviceType = SERVICE_TYPE_WEB then
        (let autoscaling =
               (case Service.Autoscaling service of
                  None \<Rightarrow> None
                | Some a \<Rightarrow> Some \<lparr>
                    porterv1_Autoscaling.Enabled = AutoScaling.Enabled a,
                    MinInstances = int32_of_int (AutoScaling.MinInstances a),
                    MaxInstances = int32_of_int (AutoScaling.MaxInstances a),
                    CpuThresholdPercent = int32_of_int (AutoScaling.CpuThresholdPercent a),
                    MemoryThresholdPercent = int32_of_int (AutoScaling.MemoryThresholdPercent a) \<rparr>);
             healthCheck =
               (case Service.HealthCheck service of
                  None \<Rightarrow> None
                | Some h \<Rightarrow> Some \<lparr>
                    porterv1_HealthCheck.Enabled = HealthCheck.Enabled h,
                    HttpPath = HealthCheck.HttpPath h \<rparr>);
             domains =
               map (\<lambda>domain. \<lparr> porterv1_Domain.Name = Domains.Name domain \<rparr>)
                 (Service.Domains service);
             webConfig = \<lparr>
               porterv1_WebServiceConfig.Autoscaling = autoscaling,
               HealthCheck = healthCheck,
               Domains = domains \<rparr>
         in Inr (serviceProto \<lparr> Config := Some (Service_WebConfig webConfig) \<rparr>))
      else if serviceType = SERVICE_TYPE_WORKER then
        (let autoscaling =
               (case Service.Autoscaling service of
                  None \<Rightarrow> None
                | Some a \<Rightarrow> Some \<lparr>
                    porterv1_Autoscaling.Enabled = AutoScaling.Enabled a,
                    MinInstances = int32_of_int (AutoScaling.MinInstances a),
                    MaxInstances = int32_of_int (AutoScaling.MaxInstances a),
                    CpuThresholdPercent = int32_of_int (AutoScaling.CpuThresholdPercent a),
                    MemoryThresholdPercent = int32_of_int (AutoScaling.MemoryThresholdPercent a) \<rparr>);
             workerConfig = \<lparr> porterv1_WorkerServiceConfig.Autoscaling = autoscaling \<rparr>
         in Inr (serviceProto \<lparr> Config := Some (Service_WorkerConfig workerConfig) \<rparr>))
      else if serviceType = SERVICE_TYPE_JOB then
        (let jobConfig = \<lparr>
               porterv1_JobServiceConfig.AllowConcurrent = Service.AllowConcurrent service,
               Cron = Service.Cron service \<rparr>
         in Inr (serviceProto \<lparr> Config := Some (Service_JobConfig jobConfig) \<rparr>))
      else Inl (InvalidServiceTypeEnum serviceType))"

subsection \<open>AppProtoFromYaml\<close>

text \<open>
  The loop over \<open>porterYaml.Services\<close>: the first service whose type or configuration
  is refused ends the run with the wrapped error; otherwise the converted service is
  stored under its name.
\<close>

fun range_Services ::
  "(string \<times> Service) list \<Rightarrow> (string \<rightharpoonup> porterv1_Service)
     \<Rightarrow> error + (string \<rightharpoonup> porterv1_Service)" where
  "range_Services [] services = Inr services"
| "range_Services ((name, service) # rest) services =
     (case protoEnumFromType name service of
        Inl err \<Rightarrow> Inl (TelemetryError (Some err) ''error getting service type'')
      | Inr serviceType \<Rightarrow>
          (case serviceProtoFromConfig service serviceType of
             Inl err \<Rightarrow> Inl (TelemetryError (Some err) ''error casting service config'')
           | Inr serviceProto \<Rightarrow> range_Services rest (services(name \<mapsto> serviceProto))))"

text \<open>
  \<open>yaml.Unmarshal\<close> belongs to an external library and is a parameter: it returns the
  error of a malformed document, or the struct with every absent key left at its zero
  value (\<open>''''\<close>, \<open>0\<close>, \<open>False\<close>, \<open>nil\<close>). The byte slice may be \<open>nil\<close>.
\<close>

definition AppProtoFromYaml ::
  "(byte list \<Rightarrow> error + PorterYAML) \<Rightarrow> byte list option \<Rightarrow> error + porterv1_PorterApp" where
  "AppProtoFromYaml yaml_Unmarshal porterYamlBytes =
     (case porterYamlBytes of
        None \<Rightarrow> Inl (TelemetryError None ''porter yaml is nil'')
      | Some bytes \<Rightarrow>
          (case yaml_Unmarshal bytes of
             Inl err \<Rightarrow> Inl (TelemetryError (Some err) ''error unmarshaling porter yaml'')
           | Inr porterYaml \<Rightarrow>
               (let appProto = \<lparr>
                      porterv1_PorterApp.Name = PorterYAML.Name porterYaml,
                      Env = PorterYAML.Env porterYaml,
                      Build = None, Image = None, Services = Map.empty, Predeploy = None \<rparr>;
                    appProto =
                      (case PorterYAML.Build porterYaml of
                         None \<Rightarrow> appProto
                       | Some b \<Rightarrow> appProto \<lparr> porterv1_PorterApp.Build := Some \<lparr>
                           porterv1_Build.Context = Build.Context b,
                           Method = Build.Method b,
                           Builder = Build.Builder b,
                           Buildpacks = Build.Buildpacks b,
                           Dockerfile = Build.Dockerfile b \<rparr> \<rparr>);
                    appProto =
                      (case PorterYAML.Image porterYaml of
                         None \<Rightarrow> appProto
                       | Some i \<Rightarrow> appProto \<lparr> porterv1_PorterApp.Image := Some \<lparr>
                           porterv1_AppImage.Repository = Image.Repository i,
                           Tag = Image.Tag i \<rparr> \<rparr>)
                in
                case PorterYAML.Services porterYaml of
                  None \<Rightarrow> Inl (TelemetryError None ''porter yaml is missing services'')
                | Some entries \<Rightarrow>
                    (case range_Services entries Map.empty of
                       Inl err \<Rightarrow> Inl err
                     | Inr services \<Rightarrow>
                         (let appProto = appProto \<lparr> porterv1_PorterApp.Services := services \<rparr>
                          in
                          case PorterYAML.Predeploy porterYaml of
                            None \<Rightarrow> Inr appProto
                          | Some predeploy \<Rightarrow>
                              (case serviceProtoFromConfig predeploy SERVICE_TYPE_JOB of
                                 Inl err \<Rightarrow>
                                   Inl (TelemetryError (Some err) ''error casting predeploy config'')
                               | Inr predeployProto \<Rightarrow>
                                   Inr (appProto \<lparr> porterv1_PorterApp.Predeploy :=
                                          Some predeployProto \<rparr>)))))))"

section \<open>The client form model (dashboard, lib/porter-apps)\<close>

subsection \<open>Messages of the api-contracts package as the client sees them\<close>

text \<open>
  The generated message classes are not part of the repository. \<open>Service\<close> is only handed
  from one function to another here, so it is a type parameter \<open>'sp\<close>. \<open>services\<close> is a
  JavaScript object used as a dictionary: it is given as the list of its entries in the
  order of \<open>Object.entries\<close>, and its keys are distinct. A field left out of the initialiser
  of a message is \<open>undefined\<close> (\<open>None\<close>) for a message field and empty for a string or
  an array.
\<close>

record contracts_Build =
  "method" :: string
  "context" :: string
  builder :: string
  buildpacks :: "string list"
  dockerfile :: string

record contracts_AppImage =
  repository :: string
  tag :: string

record 'sp contracts_PorterApp =
  name :: string
  services :: "(string \<times> 'sp) list"
  env :: "string \<rightharpoonup> string"
  build :: "contracts_Build option"
  image :: "contracts_AppImage option"
  predeploy :: "'sp option"

subsection \<open>Form data\<close>

text \<open>
  \<open>buildValidator\<close>: a union discriminated by \<open>method\<close>. \<open>BuildOptions_pack context
  buildpacks builder\<close> is the variant of method pack, \<open>BuildOptions_docker context
  dockerfile\<close> the variant of method docker.
\<close>

record Buildpack =
  name :: string
  buildpack :: string

datatype BuildOptions =
    BuildOptions_pack string "Buildpack list" string
  | BuildOptions_docker string string

text \<open>
  \<open>sourceValidator\<close>: a union discriminated by \<open>type\<close>. \<open>git_repo_id\<close> is a JavaScript
  number that no function below reads.
\<close>

record SourceOptions_github =
  git_repo_id :: int
  git_branch :: string
  git_repo_name :: string
  porter_yaml_path :: string

record SourceOptions_image =
  repository :: string
  tag :: string

datatype SourceOptions =
    Source_github SourceOptions_github
  | Source_docker_registry SourceOptions_image

text \<open>
  \<open>ClientService\<close> and \<open>SerializedService\<close> are declared in \<open>lib/porter-apps/services\<close>,
  which is not among the sources. The functions below read \<open>s.name.value\<close> of the first
  and \<open>svc.name\<close> of the second; a form field is an object with \<open>value\<close> and \<open>readOnly\<close>
  (as \<open>JobTabs.tsx\<close> reads it). Every other field lives in the extension part of the
  record.
\<close>

record 'a ServiceField =
  readOnly :: bool
  "value" :: 'a

record ClientService =
  name :: "string ServiceField"

record SerializedService =
  name :: string

record 'c DetectedServices =
  services :: "'c ClientService_scheme list"
  predeploy :: "'c ClientService_scheme option"

record 'c ClientPorterApp =
  name :: string
  services :: "'c ClientService_scheme list"
  env :: "string \<rightharpoonup> string"
  build :: BuildOptions

record 'c PorterAppFormData =
  app :: "'c ClientPorterApp"
  source :: SourceOptions

text \<open>
  The functions that \<open>lib/porter-apps/services\<close> exports and the two conversions below
  call. They are parameters of the model: \<open>deserializeService svc override\<close> stands for
  \<open>deserializeService({ service: svc, override })\<close> and \<open>serializedServiceFromProto n
  service isPredeploy\<close> for \<open>serializedServiceFromProto({ name: n, service, isPredeploy })\<close>,
  an argument that the call leaves out being \<open>None\<close>.
\<close>

record ('c, 's, 'sp) services_module =
  isPredeployService :: "'c ClientService_scheme \<Rightarrow> bool"
  serializeService :: "'c ClientService_scheme \<Rightarrow> 's SerializedService_scheme"
  deserializeService ::
    "'s SerializedService_scheme \<Rightarrow> 's SerializedService_scheme option \<Rightarrow> 'c ClientService_scheme"
  serializedServiceFromProto :: "string \<Rightarrow> 'sp \<Rightarrow> bool option \<Rightarrow> 's SerializedService_scheme"
  serviceProto :: "'s SerializedService_scheme \<Rightarrow> 'sp"

subsection \<open>clientBuildToProto and clientAppToProto\<close>

definition clientBuildToProto :: "BuildOptions \<Rightarrow> contracts_Build" where
  "clientBuildToProto b =
     (case b of
        BuildOptions_pack ctx bps bldr \<Rightarrow> \<lparr>
          method = ''pack'',
          context = ctx,
          builder = bldr,
          buildpacks = map Buildpack.buildpack bps,
          dockerfile = '''' \<rparr>
      | BuildOptions_docker ctx df \<Rightarrow> \<lparr>
          method = ''docker'',
          context = ctx,
          builder = '''',
          buildpacks = [],
          dockerfile = df \<rparr>)"

text \<open>
  The \<open>reduce\<close> stores each service under \<open>svc.name.value\<close>: a later service of the same
  name replaces the earlier entry, a new name gets a new entry.
\<close>

definition clientAppToProto ::
  "('c, 's, 'sp) services_module \<Rightarrow> 'c PorterAppFormData \<Rightarrow> 'sp contracts_PorterApp" where
  "clientAppToProto L data =
     (let app = PorterAppFormData.app data;
          source = PorterAppFormData.source data;
          services =
            foldl
              (\<lambda>acc svc.
                 AList.update (ServiceField.value (ClientService.name svc))
                   (serviceProto L (serializeService L svc)) acc)
              []
              (filter (\<lambda>s. \<not> isPredeployService L s) (ClientPorterApp.services app));
          predeploy = List.find (\<lambda>s. isPredeployService L s) (ClientPorterApp.services app)
      in
      case source of
        Source_github src \<Rightarrow> \<lparr>
          contracts_PorterApp.name = ClientPorterApp.name app,
          services = services,
          env = ClientPorterApp.env app,
          build = Some (clientBuildToProto (ClientPorterApp.build app)),
          image = None,
          predeploy =
            (case predeploy of
               None \<Rightarrow> None
             | Some p \<Rightarrow> Some (serviceProto L (serializeService L p))) \<rparr>
      | Source_docker_registry src \<Rightarrow> \<lparr>
          contracts_PorterApp.name = ClientPorterApp.name app,
          services = services,
          env = ClientPorterApp.env app,
          build = None,
          image = Some \<lparr>
            contracts_AppImage.repository = SourceOptions_image.repository src,
            tag = SourceOptions_image.tag src \<rparr>,
          predeploy = None \<rparr>)"

subsection \<open>clientBuildFromProto and clientAppFromProto\<close>

definition clientBuildFromProto :: "contracts_Build option \<Rightarrow> BuildOptions option" where
  "clientBuildFromProto proto =
     (case proto of
        None \<Rightarrow> None
      | Some p \<Rightarrow>
          if contracts_Build.method p = ''pack'' then
            Some (BuildOptions_pack (contracts_Build.context p)
                    (map (\<lambda>b. \<lparr> Buildpack.name = b, buildpack = b \<rparr>) (contracts_Build.buildpacks p))
                    (contracts_Build.builder p))
          else if contracts_Build.method p = ''docker'' then
            Some (BuildOptions_docker (contracts_Build.context p) (contracts_Build.dockerfile p))
          else None)"

text \<open>
  \<open>[...services, predeploy].filter(valueExists)\<close> keeps the defined elements: the services
  always are, the pre-deploy service is when the proto has one.
\<close>

definition clientAppFromProto ::
  "('c, 's, 'sp) services_module \<Rightarrow> 'sp contracts_PorterApp \<Rightarrow> 'c DetectedServices option
     \<Rightarrow> 'c ClientPorterApp" where
  "clientAppFromProto L proto overrides =
     (let services =
            map
              (\<lambda>svc.
                 (let override =
                        (case overrides of
                           None \<Rightarrow> None
                         | Some ov \<Rightarrow>
                             List.find
                               (\<lambda>s. ServiceField.value (ClientService.name s) =
                                      SerializedService.name svc)
                               (DetectedServices.services ov))
                  in
                  case override of
                    Some ovr \<Rightarrow> deserializeService L svc (Some (serializeService L ovr))
                  | None \<Rightarrow> deserializeService L svc None))
              (map (\<lambda>(n, service). serializedServiceFromProto L n service None)
                 (contracts_PorterApp.services proto));
          build =
            (case clientBuildFromProto (contracts_PorterApp.build proto) of
               Some b \<Rightarrow> b
             | None \<Rightarrow> BuildOptions_pack ''./'' [] '''')
      in
      case (case overrides of None \<Rightarrow> None | Some ov \<Rightarrow> DetectedServices.predeploy ov) of
        None \<Rightarrow> \<lparr>
          ClientPorterApp.name = contracts_PorterApp.name proto,
          services = services,
          env = contracts_PorterApp.env proto,
          build = build \<rparr>
      | Some ovPredeploy \<Rightarrow>
          (let predeployOverrides = serializeService L ovPredeploy;
               predeploy =
                 (case contracts_PorterApp.predeploy proto of
                    Some p \<Rightarrow>
                      Some (deserializeService L
                              (serializedServiceFromProto L ''pre-deploy'' p (Some True))
                              (Some predeployOverrides))
                  | None \<Rightarrow> None)
           in \<lparr>
             ClientPorterApp.name = contracts_PorterApp.name proto,
             services = List.map_filter (\<lambda>x. x) (map Some services @ [predeploy]),
             env = contracts_PorterApp.env proto,
             build = build \<rparr>))"

section \<open>Properties of a canonical specification and concrete documents\<close>

subsection \<open>The invariant of a converted service\<close>

text \<open>
  The populated variant of the oneof \<open>Config\<close> is the one of the service's type; a
  service without a populated variant does not satisfy the invariant.
\<close>

definition config_matches_type :: "porterv1_Service \<Rightarrow> bool" where
  "config_matches_type s =
     (case porterv1_Service.Config s of
        None \<Rightarrow> False
      | Some (Service_WebConfig c) \<Rightarrow> porterv1_Service.Type s = SERVICE_TYPE_WEB
      | Some (Service_WorkerConfig c) \<Rightarrow> porterv1_Service.Type s = SERVICE_TYPE_WORKER
      | Some (Service_JobConfig c) \<Rightarrow> porterv1_Service.Type s = SERVICE_TYPE_JOB)"

subsection \<open>Documents\<close>

text \<open>
  A run of \<open>yaml.Unmarshal\<close> on a well-formed document whose content is the struct \<open>y\<close>.
\<close>

definition unmarshals_to :: "PorterYAML \<Rightarrow> byte list \<Rightarrow> error + PorterYAML" where
  "unmarshals_to y bytes = Inr y"

text \<open>A run of \<open>yaml.Unmarshal\<close> on a malformed document.\<close>

definition unmarshal_fails :: "string \<Rightarrow> byte list \<Rightarrow> error + PorterYAML" where
  "unmarshal_fails msg bytes = Inl (YamlError msg)"

text \<open>The zero value of the struct \<open>Service\<close>: what a service with no keys unmarshals to.\<close>

definition Service_zero :: Service where
  "Service_zero = \<lparr>
     Service.Run = '''', Type = '''', Instances = 0, CpuCores = 0, RamMegabytes = 0, Port = 0,
     Autoscaling = None, Domains = [], HealthCheck = None, AllowConcurrent = False,
     Cron = '''' \<rparr>"

text \<open>The \<open>float32\<close> nearest to 0.1.\<close>

definition float32_0_1 :: float32 where
  "float32_0_1 = 0x3DCCCCCD"

text \<open>
  \<open>testdata/v2_input_nobuild.yaml\<close>, as it unmarshals into \<open>PorterYAML\<close> (the struct has
  no field for the key \<open>version\<close>).
\<close>

definition example_web :: Service where
  "example_web = \<lparr>
     Service.Run = ''node index.js'', Type = ''web'', Instances = 0, CpuCores = float32_0_1,
     RamMegabytes = 256, Port = 8080,
     Autoscaling = Some \<lparr>
       AutoScaling.Enabled = True, MinInstances = 1, MaxInstances = 3,
       CpuThresholdPercent = 60, MemoryThresholdPercent = 60 \<rparr>,
     Domains = [\<lparr> Domains.Name = ''test1.example.com'' \<rparr>,
                \<lparr> Domains.Name = ''test2.example.com'' \<rparr>],
     HealthCheck = Some \<lparr> HealthCheck.Enabled = True, HttpPath = ''/healthz'' \<rparr>,
     AllowConcurrent = False, Cron = '''' \<rparr>"

definition example_wkr :: Service where
  "example_wkr = \<lparr>
     Service.Run = ''echo '' @ [CHR 0x27] @ ''work'' @ [CHR 0x27], Type = ''worker'',
     Instances = 1, CpuCores = float32_0_1, RamMegabytes = 256, Port = 80,
     Autoscaling = None, Domains = [], HealthCheck = None,
     AllowConcurrent = False, Cron = '''' \<rparr>"

definition example_job :: Service where
  "example_job = \<lparr>
     Service.Run = ''echo '' @ [CHR 0x27] @ ''hello world'' @ [CHR 0x27], Type = ''job'',
     Instances = 0, CpuCores = float32_0_1, RamMegabytes = 256, Port = 0,
     Autoscaling = None, Domains = [], HealthCheck = None,
     AllowConcurrent = True, Cron = ''*/10 * * * *'' \<rparr>"

definition v2_input_nobuild :: PorterYAML where
  "v2_input_nobuild = \<lparr>
     PorterYAML.Name = ''js-test-app'',
     Services = Some [(''example-web'', example_web), (''example-wkr'', example_wkr),
                      (''example-job'', example_job)],
     Image = Some \<lparr> Image.Repository = ''nginx'', Tag = ''latest'' \<rparr>,
     Build = None,
     Env = [''PORT'' \<mapsto> ''8080'', ''NODE_ENV'' \<mapsto> ''production''],
     Predeploy = Some (Service_zero \<lparr> Service.Run := ''ls'', Service.Type := ''job'' \<rparr>) \<rparr>"

text \<open>
  \<open>result_nobuild\<close> of \<open>parse_test.go\<close>. The test writes the pre-deploy configuration as
  an empty \<open>Service_JobConfig\<close>; compared as JSON, as the test does, that is the job
  configuration with no field set.
\<close>

definition result_example_job :: porterv1_Service where
  "result_example_job = \<lparr>
     porterv1_Service.Run = ''echo '' @ [CHR 0x27] @ ''hello world'' @ [CHR 0x27],
     Type = 3, Instances = 0, CpuCores = float32_0_1, RamMegabytes = 256, Port = 0,
     Config = Some (Service_JobConfig \<lparr>
       porterv1_JobServiceConfig.AllowConcurrent = True, Cron = ''*/10 * * * *'' \<rparr>) \<rparr>"

definition result_example_wkr :: porterv1_Service where
  "result_example_wkr = \<lparr>
     porterv1_Service.Run = ''echo '' @ [CHR 0x27] @ ''work'' @ [CHR 0x27],
     Type = 2, Instances = 1, CpuCores = float32_0_1, RamMegabytes = 256, Port = 80,
     Config = Some (Service_WorkerConfig \<lparr>
       porterv1_WorkerServiceConfig.Autoscaling = None \<rparr>) \<rparr>"

definition result_example_web :: porterv1_Service where
  "result_example_web = \<lparr>
     porterv1_Service.Run = ''node index.js'',
     Type = 1, Instances = 0, CpuCores = float32_0_1, RamMegabytes = 256, Port = 8080,
     Config = Some (Service_WebConfig \<lparr>
       porterv1_WebServiceConfig.Autoscaling = Some \<lparr>
         porterv1_Autoscaling.Enabled = True, MinInstances = 1, MaxInstances = 3,
         CpuThresholdPercent = 60, MemoryThresholdPercent = 60 \<rparr>,
       HealthCheck = Some \<lparr> porterv1_HealthCheck.Enabled = True, HttpPath = ''/healthz'' \<rparr>,
       Domains = [\<lparr> porterv1_Domain.Name = ''test1.example.com'' \<rparr>,
                  \<lparr> porterv1_Domain.Name = ''test2.example.com'' \<rparr>] \<rparr>) \<rparr>"

definition result_predeploy :: porterv1_Service where
  "result_predeploy = \<lparr>
     porterv1_Service.Run = ''ls'',
     Type = 3, Instances = 0, CpuCores = 0, RamMegabytes = 0, Port = 0,
     Config = Some (Service_JobConfig \<lparr>
       porterv1_JobServiceConfig.AllowConcurrent = False, Cron = '''' \<rparr>) \<rparr>"

definition result_nobuild :: porterv1_PorterApp where
  "result_nobuild = \<lparr>
     porterv1_PorterApp.Name = ''js-test-app'',
     Env = [''PORT'' \<mapsto> ''8080'', ''NODE_ENV'' \<mapsto> ''production''],
     Build = None,
     Image = Some \<lparr> porterv1_AppImage.Repository = ''nginx'', Tag = ''latest'' \<rparr>,
     Services = [''example-job'' \<mapsto> result_example_job,
                 ''example-wkr'' \<mapsto> result_example_wkr,
                 ''example-web'' \<mapsto> result_example_web],
     Predeploy = Some result_predeploy \<rparr>"

text \<open>A web service that also carries the job keys \<open>cron\<close> and \<open>allowConcurrent\<close>.\<close>

definition web_with_cron :: Service where
  "web_with_cron = Service_zero \<lparr>
     Service.Run := ''node index.js'', Service.Type := ''web'', Service.Port := 8080,
     Service.AllowConcurrent := True, Service.Cron := ''*/10 * * * *'' \<rparr>"

definition web_with_cron_yaml :: PorterYAML where
  "web_with_cron_yaml = \<lparr>
     PorterYAML.Name = ''js-test-app'',
     Services = Some [(''example-web'', web_with_cron)],
     Image = Some \<lparr> Image.Repository = ''nginx'', Tag = ''latest'' \<rparr>,
     Build = None, Env = Map.empty, Predeploy = None \<rparr>"

text \<open>A document with both the keys \<open>build\<close> and \<open>image\<close>, and one with neither.\<close>

definition build_and_image_yaml :: PorterYAML where
  "build_and_image_yaml = \<lparr>
     PorterYAML.Name = ''js-test-app'',
     Services = Some [(''example-wkr'', example_wkr)],
     Image = Some \<lparr> Image.Repository = ''nginx'', Tag = ''latest'' \<rparr>,
     Build = Some \<lparr> Build.Context = ''./'', Method = ''docker'', Builder = '''',
                    Buildpacks = [], Dockerfile = ''./Dockerfile'' \<rparr>,
     Env = Map.empty, Predeploy = None \<rparr>"

definition no_build_no_image_yaml :: PorterYAML where
  "no_build_no_image_yaml = \<lparr>
     PorterYAML.Name = ''js-test-app'',
     Services = Some [(''example-wkr'', example_wkr)],
     Image = None, Build = None, Env = Map.empty, Predeploy = None \<rparr>"

text \<open>A document with the key \<open>services\<close> and no key \<open>name\<close>.\<close>

definition no_name_yaml :: PorterYAML where
  "no_name_yaml = \<lparr>
     PorterYAML.Name = '''',
     Services = Some [(''example-wkr'', example_wkr)],
     Image = Some \<lparr> Image.Repository = ''nginx'', Tag = ''latest'' \<rparr>,
     Build = None, Env = Map.empty, Predeploy = None \<rparr>"

text \<open>A document with the key \<open>name\<close> and no key \<open>services\<close>.\<close>

definition no_services_yaml :: PorterYAML where
  "no_services_yaml = \<lparr>
     PorterYAML.Name = ''js-test-app'',
     Services = None,
     Image = Some \<lparr> Image.Repository = ''nginx'', Tag = ''latest'' \<rparr>,
     Build = None, Env = Map.empty, Predeploy = None \<rparr>"

section \<open>Reconciling against a client model, and concrete form data\<close>


text \<open>
  The override that \<open>clientAppFromProto\<close> looks up for a service name,
  \<open>overrides?.services.find((s) => s.name.value === n)\<close>, and the pre-deploy slot of the
  prior overrides, \<open>overrides?.predeploy\<close>.
\<close>

definition find_override ::
  "'c DetectedServices option \<Rightarrow> string \<Rightarrow> 'c ClientService_scheme option" where
  "find_override overrides n =
     (case overrides of
        None \<Rightarrow> None
      | Some ov \<Rightarrow>
          List.find (\<lambda>s. ServiceField.value (ClientService.name s) = n)
            (DetectedServices.services ov))"

definition overrides_predeploy ::
  "'c DetectedServices option \<Rightarrow> 'c ClientService_scheme option" where
  "overrides_predeploy overrides =
     (case overrides of None \<Rightarrow> None | Some ov \<Rightarrow> DetectedServices.predeploy ov)"

text \<open>
  The two parts of the service list that \<open>clientAppFromProto\<close> returns: one client
  service for each entry of \<open>proto.services\<close>, merged with the override of its name when
  there is one, and the pre-deploy service, present when both the overrides and the proto
  have one.
\<close>

definition reconciled_service ::
  "('c, 's, 'sp) services_module \<Rightarrow> 'c DetectedServices option \<Rightarrow> string \<Rightarrow> 'sp
     \<Rightarrow> 'c ClientService_scheme" where
  "reconciled_service L overrides n service =
     (let svc = serializedServiceFromProto L n service None in
      case find_override overrides (SerializedService.name svc) of
        Some ovr \<Rightarrow> deserializeService L svc (Some (serializeService L ovr))
      | None \<Rightarrow> deserializeService L svc None)"

definition reconciled_predeploy ::
  "('c, 's, 'sp) services_module \<Rightarrow> 'sp contracts_PorterApp \<Rightarrow> 'c DetectedServices option
     \<Rightarrow> 'c ClientService_scheme list" where
  "reconciled_predeploy L proto overrides =
     (case overrides_predeploy overrides of
        None \<Rightarrow> []
      | Some ovPredeploy \<Rightarrow>
          (case contracts_PorterApp.predeploy proto of
             None \<Rightarrow> []
           | Some p \<Rightarrow>
               [deserializeService L (serializedServiceFromProto L ''pre-deploy'' p (Some True))
                  (Some (serializeService L ovPredeploy))]))"

text \<open>
  What the statements below ask of a services module: a serialized service bears the name
  it was built for, and the client service built from it bears that name too.
\<close>

definition keeps_proto_name :: "('c, 's, 'sp) services_module \<Rightarrow> bool" where
  "keeps_proto_name L =
     (\<forall>n service p. SerializedService.name (serializedServiceFromProto L n service p) = n)"

definition keeps_service_name :: "('c, 's, 'sp) services_module \<Rightarrow> bool" where
  "keeps_service_name L =
     (\<forall>svc ov. ServiceField.value (ClientService.name (deserializeService L svc ov)) =
        SerializedService.name svc)"

subsection \<open>A small services module for concrete inputs\<close>

text \<open>
  The theorems about the client model hold for every services module. To evaluate them at
  concrete inputs a small module is fixed here: its services carry a name, a run command
  and a kind, the run command of an override wins, and a proto service is a
  \<open>porterv1\<close> service. It is an instance to compute with, not a rendering of
  \<open>lib/porter-apps/services\<close>.
\<close>

record example_ClientService = ClientService +
  run :: "string ServiceField"
  config_type :: string

record example_SerializedService = SerializedService +
  run :: string
  config_type :: string

definition example_services ::
  "(unit example_ClientService_ext, unit example_SerializedService_ext, porterv1_Service)
     services_module" where
  "example_services = \<lparr>
     isPredeployService = (\<lambda>s. example_ClientService.config_type s = ''predeploy''),
     serializeService = (\<lambda>s. \<lparr>
       SerializedService.name = ServiceField.value (ClientService.name s),
       run = ServiceField.value (example_ClientService.run s),
       config_type = example_ClientService.config_type s \<rparr>),
     deserializeService = (\<lambda>svc override. \<lparr>
       ClientService.name = \<lparr> readOnly = False, value = SerializedService.name svc \<rparr>,
       example_ClientService.run = \<lparr> readOnly = False,
               value = (case override of
                          None \<Rightarrow> example_SerializedService.run svc
                        | Some ov \<Rightarrow> example_SerializedService.run ov) \<rparr>,
       example_ClientService.config_type = example_SerializedService.config_type svc \<rparr>),
     serializedServiceFromProto = (\<lambda>n service isPredeploy. \<lparr>
       SerializedService.name = n,
       run = porterv1_Service.Run service,
       config_type =
         (if isPredeploy = Some True then ''predeploy''
          else if porterv1_Service.Type service = SERVICE_TYPE_WEB then ''web''
          else if porterv1_Service.Type service = SERVICE_TYPE_WORKER then ''worker''
          else ''job'') \<rparr>),
     serviceProto = (\<lambda>s. \<lparr>
       porterv1_Service.Run = example_SerializedService.run s,
       Type =
         (if example_SerializedService.config_type s = ''web'' then SERVICE_TYPE_WEB
          else if example_SerializedService.config_type s = ''worker'' then SERVICE_TYPE_WORKER
          else SERVICE_TYPE_JOB),
       Instances = 0, CpuCores = 0, RamMegabytes = 0, Port = 0, Config = None \<rparr>) \<rparr>"

definition example_client_service :: "string \<Rightarrow> string \<Rightarrow> string \<Rightarrow> example_ClientService" where
  "example_client_service n r t = \<lparr>
     ClientService.name = \<lparr> readOnly = False, value = n \<rparr>,
     example_ClientService.run = \<lparr> readOnly = False, value = r \<rparr>,
     example_ClientService.config_type = t \<rparr>"

text \<open>
  A canonical specification with two services and a pre-deploy job, the same without the
  pre-deploy job, and prior overrides that edit \<open>example-web\<close>, still hold a service
  \<open>old-api\<close> that the specification no longer declares, and hold a pre-deploy service.
\<close>

definition example_proto :: "porterv1_Service contracts_PorterApp" where
  "example_proto = \<lparr>
     contracts_PorterApp.name = ''js-test-app'',
     services = [(''example-web'', result_example_web), (''example-wkr'', result_example_wkr)],
     env = [''PORT'' \<mapsto> ''8080''],
     build = None,
     image = Some \<lparr> contracts_AppImage.repository = ''nginx'', tag = ''latest'' \<rparr>,
     predeploy = Some result_predeploy \<rparr>"

definition example_proto_no_predeploy :: "porterv1_Service contracts_PorterApp" where
  "example_proto_no_predeploy = example_proto \<lparr> contracts_PorterApp.predeploy := None \<rparr>"

definition example_overrides :: "unit example_ClientService_ext DetectedServices" where
  "example_overrides = \<lparr>
     DetectedServices.services =
       [example_client_service ''example-web'' ''npm start'' ''web'',
        example_client_service ''old-api'' ''./api'' ''web''],
     predeploy = Some (example_client_service ''pre-deploy'' ''make migrate'' ''predeploy'') \<rparr>"

text \<open>
  A form whose services include a pre-deploy service, submitted once with a
  docker-registry source and once with a github source.
\<close>

definition example_app :: "unit example_ClientService_ext ClientPorterApp" where
  "example_app = \<lparr>
     ClientPorterApp.name = ''js-test-app'',
     services =
       [example_client_service ''example-web'' ''npm start'' ''web'',
        example_client_service ''pre-deploy'' ''make migrate'' ''predeploy''],
     env = [''PORT'' \<mapsto> ''8080''],
     build = BuildOptions_pack ''./'' [] ''heroku/buildpacks:20'' \<rparr>"

definition example_registry_form :: "unit example_ClientService_ext PorterAppFormData" where
  "example_registry_form = \<lparr>
     PorterAppFormData.app = example_app,
     source = Source_docker_registry
       \<lparr> SourceOptions_image.repository = ''nginx'', tag = ''latest'' \<rparr> \<rparr>"

definition example_github_form :: "unit example_ClientService_ext PorterAppFormData" where
  "example_github_form = \<lparr>
     PorterAppFormData.app = example_app,
     source = Source_github \<lparr>
       git_repo_id = 1, git_branch = ''main'', git_repo_name = ''porter-dev/js-test-app'',
       porter_yaml_path = ''./porter.yaml'' \<rparr> \<rparr>"

section \<open>Kind resolution\<close>

lemma strings_Contains_iff:
  "strings_Contains s substr \<longleftrightarrow> (\<exists>ps ss. s = ps @ substr @ ss)"
proof -
  have "strings_Contains s substr = sublist substr s"
    by (induction s) (auto simp: sublist_Cons_right)
  then show ?thesis by (simp add: sublist_def)
qed

lemma protoEnumFromType_explicit:
  "Service.Type service \<noteq> '''' \<Longrightarrow>
   protoEnumFromType nm service =
     (if Service.Type service = ''web'' then Inr SERVICE_TYPE_WEB
      else if Service.Type service = ''worker'' then Inr SERVICE_TYPE_WORKER
      else if Service.Type service = ''job'' then Inr SERVICE_TYPE_JOB
      else Inl (InvalidServiceTypeString (Service.Type service)))"
  by (simp add: protoEnumFromType_def)

lemma protoEnumFromType_inferred:
  "Service.Type service = '''' \<Longrightarrow>
   protoEnumFromType nm service =
     (if (\<exists>ps ss. nm = ps @ ''web'' @ ss) then Inr SERVICE_TYPE_WEB
      else if (\<exists>ps ss. nm = ps @ ''wkr'' @ ss) then Inr SERVICE_TYPE_WORKER
      else if (\<exists>ps ss. nm = ps @ ''job'' @ ss) then Inr SERVICE_TYPE_JOB
      else Inl NoTypeAndNameUnparsable)"
  unfolding protoEnumFromType_def strings_Contains_iff by simp

lemma protoEnumFromType_web_job:
  "Service.Type service = '''' \<Longrightarrow>
   protoEnumFromType ''web-job'' service = Inr SERVICE_TYPE_WEB"
  by (simp add: protoEnumFromType_def)

text \<open>
  C1. Kind resolution follows a strict priority order. An explicit type (in the struct: a
  non-empty \<open>Type\<close>) is mapped by the literal table web, worker, job, and any other
  literal is an error, whatever the name. Without an explicit type the kind is inferred
  from the name by the substring rules web, then wkr, then job, the first match winning;
  if none matches, resolution fails. A service named web-job without a type is a web
  service.
\<close>

theorem protoEnumFromType_priority:
  "(Service.Type service = ''web'' \<longrightarrow>
      protoEnumFromType nm service = Inr SERVICE_TYPE_WEB) \<and>
   (Service.Type service = ''worker'' \<longrightarrow>
      protoEnumFromType nm service = Inr SERVICE_TYPE_WORKER) \<and>
   (Service.Type service = ''job'' \<longrightarrow>
      protoEnumFromType nm service = Inr SERVICE_TYPE_JOB) \<and>
   (Service.Type service \<notin> {'''', ''web'', ''worker'', ''job''} \<longrightarrow>
      protoEnumFromType nm service = Inl (InvalidServiceTypeString (Service.Type service))) \<and>
   (Service.Type service = '''' \<longrightarrow>
      protoEnumFromType nm service =
        (if (\<exists>ps ss. nm = ps @ ''web'' @ ss) then Inr SERVICE_TYPE_WEB
         else if (\<exists>ps ss. nm = ps @ ''wkr'' @ ss) then Inr SERVICE_TYPE_WORKER
         else if (\<exists>ps ss. nm = ps @ ''job'' @ ss) then Inr SERVICE_TYPE_JOB
         else Inl NoTypeAndNameUnparsable)) \<and>
   (Service.Type service = '''' \<longrightarrow>
      protoEnumFromType ''web-job'' service = Inr SERVICE_TYPE_WEB)"
proof (intro conjI impI)
  assume "Service.Type service = ''web''"
  then show "protoEnumFromType nm service = Inr SERVICE_TYPE_WEB"
    by (simp add: protoEnumFromType_explicit)
next
  assume "Service.Type service = ''worker''"
  then show "protoEnumFromType nm service = Inr SERVICE_TYPE_WORKER"
    by (simp add: protoEnumFromType_explicit)
next
  assume "Service.Type service = ''job''"
  then show "protoEnumFromType nm service = Inr SERVICE_TYPE_JOB"
    by (simp add: protoEnumFromType_explicit)
next
  assume "Service.Type service \<notin> {'''', ''web'', ''worker'', ''job''}"
  then show "protoEnumFromType nm service =
      Inl (InvalidServiceTypeString (Service.Type service))"
    by (simp add: protoEnumFromType_explicit)
next
  assume "Service.Type service = ''''"
  then show "protoEnumFromType nm service =
      (if (\<exists>ps ss. nm = ps @ ''web'' @ ss) then Inr SERVICE_TYPE_WEB
       else if (\<exists>ps ss. nm = ps @ ''wkr'' @ ss) then Inr SERVICE_TYPE_WORKER
       else if (\<exists>ps ss. nm = ps @ ''job'' @ ss) then Inr SERVICE_TYPE_JOB
       else Inl NoTypeAndNameUnparsable)"
    by (rule protoEnumFromType_inferred)
next
  assume "Service.Type service = ''''"
  then show "protoEnumFromType ''web-job'' service = Inr SERVICE_TYPE_WEB"
    by (rule protoEnumFromType_web_job)
qed

theorem protoEnumFromType_priority_witness:
  "protoEnumFromType ''web-job'' Service_zero = Inr SERVICE_TYPE_WEB \<and>
   protoEnumFromType ''wkr-job'' Service_zero = Inr SERVICE_TYPE_WORKER \<and>
   protoEnumFromType ''api-job'' Service_zero = Inr SERVICE_TYPE_JOB \<and>
   protoEnumFromType ''api'' Service_zero = Inl NoTypeAndNameUnparsable \<and>
   protoEnumFromType ''web-job'' (Service_zero \<lparr> Service.Type := ''job'' \<rparr>) =
     Inr SERVICE_TYPE_JOB \<and>
   protoEnumFromType ''web-job'' (Service_zero \<lparr> Service.Type := ''worker'' \<rparr>) =
     Inr SERVICE_TYPE_WORKER \<and>
   protoEnumFromType ''job'' (Service_zero \<lparr> Service.Type := ''web'' \<rparr>) =
     Inr SERVICE_TYPE_WEB \<and>
   protoEnumFromType ''web'' (Service_zero \<lparr> Service.Type := ''Web'' \<rparr>) =
     Inl (InvalidServiceTypeString ''Web'')"
  using protoEnumFromType_priority [of Service_zero "''web-job''"]
    protoEnumFromType_priority [of Service_zero "''wkr-job''"]
    protoEnumFromType_priority [of Service_zero "''api-job''"]
    protoEnumFromType_priority [of Service_zero "''api''"]
    protoEnumFromType_priority [of "Service_zero \<lparr> Service.Type := ''job'' \<rparr>" "''web-job''"]
    protoEnumFromType_priority [of "Service_zero \<lparr> Service.Type := ''worker'' \<rparr>" "''web-job''"]
    protoEnumFromType_priority [of "Service_zero \<lparr> Service.Type := ''web'' \<rparr>" "''job''"]
    protoEnumFromType_priority [of "Service_zero \<lparr> Service.Type := ''Web'' \<rparr>" "''web''"]
  unfolding strings_Contains_iff [symmetric]
  by (simp add: Service_zero_def)

section \<open>Conversion of one service\<close>

lemma serviceProtoFromConfig_Inr:
  assumes "serviceProtoFromConfig service t = Inr p"
  shows "config_matches_type p" and "porterv1_Service.Type p = t"
    and "t \<noteq> SERVICE_TYPE_UNSPECIFIED"
  using assms
  by (auto simp: serviceProtoFromConfig_def config_matches_type_def Let_def split: if_splits)

lemma protoEnumFromType_Inr:
  "protoEnumFromType nm service = Inr t \<Longrightarrow>
   t = SERVICE_TYPE_WEB \<or> t = SERVICE_TYPE_WORKER \<or> t = SERVICE_TYPE_JOB"
  by (auto simp: protoEnumFromType_def split: if_splits)

lemma range_Services_Inr:
  assumes "range_Services entries acc = Inr m" and "m n = Some s"
  shows "acc n = Some s \<or>
    (\<exists>service t. (n, service) \<in> set entries \<and> protoEnumFromType n service = Inr t \<and>
       serviceProtoFromConfig service t = Inr s)"
  using assms
proof (induction entries acc rule: range_Services.induct)
  case (1 acc)
  then show ?case by simp
next
  case (2 nm service rest acc)
  from "2.prems"(1) obtain t p where
    t: "protoEnumFromType nm service = Inr t" and
    p: "serviceProtoFromConfig service t = Inr p" and
    rest: "range_Services rest (acc(nm \<mapsto> p)) = Inr m"
    by (auto split: sum.splits)
  from "2.IH" [OF t p rest "2.prems"(2)]
  show ?case
  proof
    assume "(acc(nm \<mapsto> p)) n = Some s"
    then show ?thesis using t p by (auto split: if_splits)
  next
    assume "\<exists>service t. (n, service) \<in> set rest \<and> protoEnumFromType n service = Inr t \<and>
      serviceProtoFromConfig service t = Inr s"
    then show ?thesis by auto
  qed
qed

lemma range_Services_dom:
  "range_Services entries acc = Inr m \<Longrightarrow> dom m = dom acc \<union> fst ` set entries"
proof (induction entries acc rule: range_Services.induct)
  case (1 acc)
  then show ?case by simp
next
  case (2 nm service rest acc)
  from "2.prems" obtain t p where
    t: "protoEnumFromType nm service = Inr t" and
    p: "serviceProtoFromConfig service t = Inr p" and
    rest: "range_Services rest (acc(nm \<mapsto> p)) = Inr m"
    by (auto split: sum.splits)
  from "2.IH" [OF t p rest] show ?case by auto
qed

lemma AppProtoFromYaml_Inr:
  assumes "AppProtoFromYaml yaml_Unmarshal porterYamlBytes = Inr a"
  obtains bytes y entries m where
    "porterYamlBytes = Some bytes" and "yaml_Unmarshal bytes = Inr y" and
    "PorterYAML.Services y = Some entries" and
    "range_Services entries Map.empty = Inr m" and
    "porterv1_PorterApp.Services a = m" and
    "porterv1_PorterApp.Name a = PorterYAML.Name y" and
    "porterv1_PorterApp.Env a = PorterYAML.Env y" and
    "porterv1_PorterApp.Build a =
       (case PorterYAML.Build y of
          None \<Rightarrow> None
        | Some b \<Rightarrow> Some \<lparr>
            porterv1_Build.Context = Build.Context b, Method = Build.Method b,
            Builder = Build.Builder b, Buildpacks = Build.Buildpacks b,
            Dockerfile = Build.Dockerfile b \<rparr>)" and
    "porterv1_PorterApp.Image a =
       (case PorterYAML.Image y of
          None \<Rightarrow> None
        | Some i \<Rightarrow> Some \<lparr>
            porterv1_AppImage.Repository = Image.Repository i, Tag = Image.Tag i \<rparr>)" and
    "case PorterYAML.Predeploy y of
       None \<Rightarrow> porterv1_PorterApp.Predeploy a = None
     | Some pre \<Rightarrow>
         (\<exists>p. serviceProtoFromConfig pre SERVICE_TYPE_JOB = Inr p \<and>
              porterv1_PorterApp.Predeploy a = Some p)"
  using assms
  unfolding AppProtoFromYaml_def Let_def
  by (auto split: option.splits sum.splits)

lemma AppProtoFromYaml_Predeploy:
  assumes "AppProtoFromYaml yaml_Unmarshal porterYamlBytes = Inr a"
    and "porterv1_PorterApp.Predeploy a = Some p"
  shows "\<exists>pre. serviceProtoFromConfig pre SERVICE_TYPE_JOB = Inr p"
  using assms
  unfolding AppProtoFromYaml_def Let_def
  by (auto split: option.splits sum.splits)

section \<open>Canonicalization of a document\<close>

subsection \<open>The test document\<close>

lemma protoEnumFromType_examples:
  "protoEnumFromType ''example-web'' example_web = Inr SERVICE_TYPE_WEB"
  "protoEnumFromType ''example-wkr'' example_wkr = Inr SERVICE_TYPE_WORKER"
  "protoEnumFromType ''example-job'' example_job = Inr SERVICE_TYPE_JOB"
  by (simp_all add: protoEnumFromType_def example_web_def example_wkr_def example_job_def)

lemma serviceProtoFromConfig_example_web:
  "serviceProtoFromConfig example_web SERVICE_TYPE_WEB = Inr result_example_web"
  by (simp add: serviceProtoFromConfig_def example_web_def result_example_web_def
      int32_of_int_def)

lemma serviceProtoFromConfig_example_wkr:
  "serviceProtoFromConfig example_wkr SERVICE_TYPE_WORKER = Inr result_example_wkr"
  by (simp add: serviceProtoFromConfig_def example_wkr_def result_example_wkr_def
      int32_of_int_def)

lemma serviceProtoFromConfig_example_job:
  "serviceProtoFromConfig example_job SERVICE_TYPE_JOB = Inr result_example_job"
  by (simp add: serviceProtoFromConfig_def example_job_def result_example_job_def
      int32_of_int_def)

lemma serviceProtoFromConfig_predeploy:
  "serviceProtoFromConfig (Service_zero \<lparr> Service.Run := ''ls'', Service.Type := ''job'' \<rparr>)
     SERVICE_TYPE_JOB = Inr result_predeploy"
  by (simp add: serviceProtoFromConfig_def Service_zero_def result_predeploy_def
      int32_of_int_def)

lemma result_services_order:
  "[''example-web'' \<mapsto> result_example_web, ''example-wkr'' \<mapsto> result_example_wkr,
    ''example-job'' \<mapsto> result_example_job] =
   [''example-job'' \<mapsto> result_example_job, ''example-wkr'' \<mapsto> result_example_wkr,
    ''example-web'' \<mapsto> result_example_web]"
  by (rule ext) simp

lemma AppProtoFromYaml_v2_input_nobuild:
  "AppProtoFromYaml (unmarshals_to v2_input_nobuild) (Some bytes) = Inr result_nobuild"
  by (simp add: AppProtoFromYaml_def unmarshals_to_def v2_input_nobuild_def result_nobuild_def
      protoEnumFromType_examples serviceProtoFromConfig_example_web
      serviceProtoFromConfig_example_wkr serviceProtoFromConfig_example_job
      serviceProtoFromConfig_predeploy result_services_order)

lemma result_nobuild_services:
  "dom (porterv1_PorterApp.Services result_nobuild) =
     {''example-web'', ''example-wkr'', ''example-job''}"
  "porterv1_PorterApp.Services result_nobuild ''example-web'' = Some result_example_web"
  "porterv1_PorterApp.Services result_nobuild ''example-wkr'' = Some result_example_wkr"
  "porterv1_PorterApp.Services result_nobuild ''example-job'' = Some result_example_job"
  by (auto simp: result_nobuild_def)

text \<open>
  C3. The test document (name js-test-app, image nginx:latest, the services example-web,
  example-wkr and example-job, a pre-deploy job running ls, and the environment PORT and
  NODE_ENV) canonicalizes to the specification the test expects: exactly those three
  services keyed by name, each with the configuration variant of its own kind and no
  other, and a pre-deploy service of kind job whose cron and concurrency fields are unset.
\<close>

theorem AppProtoFromYaml_concrete_scenario:
  "AppProtoFromYaml (unmarshals_to v2_input_nobuild) (Some bytes) = Inr result_nobuild \<and>
   porterv1_PorterApp.Name result_nobuild = ''js-test-app'' \<and>
   dom (porterv1_PorterApp.Services result_nobuild) =
     {''example-web'', ''example-wkr'', ''example-job''} \<and>
   porterv1_PorterApp.Services result_nobuild ''example-web'' = Some result_example_web \<and>
   porterv1_PorterApp.Services result_nobuild ''example-wkr'' = Some result_example_wkr \<and>
   porterv1_PorterApp.Services result_nobuild ''example-job'' = Some result_example_job \<and>
   config_matches_type result_example_web \<and>
   porterv1_Service.Type result_example_web = SERVICE_TYPE_WEB \<and>
   config_matches_type result_example_wkr \<and>
   porterv1_Service.Type result_example_wkr = SERVICE_TYPE_WORKER \<and>
   config_matches_type result_example_job \<and>
   porterv1_Service.Type result_example_job = SERVICE_TYPE_JOB \<and>
   porterv1_PorterApp.Predeploy result_nobuild = Some result_predeploy \<and>
   porterv1_Service.Type result_predeploy = SERVICE_TYPE_JOB \<and>
   porterv1_Service.Config result_predeploy =
     Some (Service_JobConfig \<lparr>
       porterv1_JobServiceConfig.AllowConcurrent = False, Cron = '''' \<rparr>) \<and>
   porterv1_PorterApp.Image result_nobuild =
     Some \<lparr> porterv1_AppImage.Repository = ''nginx'', Tag = ''latest'' \<rparr> \<and>
   porterv1_PorterApp.Build result_nobuild = None \<and>
   porterv1_PorterApp.Env result_nobuild ''PORT'' = Some ''8080'' \<and>
   porterv1_PorterApp.Env result_nobuild ''NODE_ENV'' = Some ''production''"
proof -
  have types: "config_matches_type result_example_web"
    "config_matches_type result_example_wkr" "config_matches_type result_example_job"
    by (simp_all add: config_matches_type_def result_example_web_def result_example_wkr_def
        result_example_job_def)
  have rest: "porterv1_PorterApp.Name result_nobuild = ''js-test-app''"
    "porterv1_PorterApp.Predeploy result_nobuild = Some result_predeploy"
    "porterv1_PorterApp.Image result_nobuild =
       Some \<lparr> porterv1_AppImage.Repository = ''nginx'', Tag = ''latest'' \<rparr>"
    "porterv1_PorterApp.Build result_nobuild = None"
    "porterv1_PorterApp.Env result_nobuild ''PORT'' = Some ''8080''"
    "porterv1_PorterApp.Env result_nobuild ''NODE_ENV'' = Some ''production''"
    by (simp_all add: result_nobuild_def)
  have kinds: "porterv1_Service.Type result_example_web = SERVICE_TYPE_WEB"
    "porterv1_Service.Type result_example_wkr = SERVICE_TYPE_WORKER"
    "porterv1_Service.Type result_example_job = SERVICE_TYPE_JOB"
    "porterv1_Service.Type result_predeploy = SERVICE_TYPE_JOB"
    "porterv1_Service.Config result_predeploy =
       Some (Service_JobConfig \<lparr>
         porterv1_JobServiceConfig.AllowConcurrent = False, Cron = '''' \<rparr>)"
    by (simp_all add: result_example_web_def result_example_wkr_def result_example_job_def
        result_predeploy_def)
  show ?thesis
    using AppProtoFromYaml_v2_input_nobuild [of bytes] result_nobuild_services types rest kinds
    by blast
qed

subsection \<open>Fields of another kind\<close>

text \<open>
  C4. The claim asks that a source field of another kind (cron on a web service) makes
  canonicalization fail. The struct \<open>Service\<close> declares that rule in its tags
  (\<open>validate:"excluded_unless=Type job"\<close> on \<open>Cron\<close> and \<open>AllowConcurrent\<close>), but no
  validation runs: the document below, a web service with cron and allowConcurrent, is
  converted without an error, to a web configuration, and the two job fields are dropped.
\<close>

theorem web_with_cron_accepted:
  "AppProtoFromYaml (unmarshals_to web_with_cron_yaml) (Some []) = Inr \<lparr>
     porterv1_PorterApp.Name = ''js-test-app'',
     Env = Map.empty,
     Build = None,
     Image = Some \<lparr> porterv1_AppImage.Repository = ''nginx'', Tag = ''latest'' \<rparr>,
     Services = [''example-web'' \<mapsto> \<lparr>
       porterv1_Service.Run = ''node index.js'', Type = SERVICE_TYPE_WEB, Instances = 0,
       CpuCores = 0, RamMegabytes = 0, Port = 8080,
       Config = Some (Service_WebConfig \<lparr>
         porterv1_WebServiceConfig.Autoscaling = None, HealthCheck = None,
         Domains = [] \<rparr>) \<rparr>],
     Predeploy = None \<rparr>"
  by (simp add: AppProtoFromYaml_def unmarshals_to_def web_with_cron_yaml_def web_with_cron_def
      Service_zero_def protoEnumFromType_def serviceProtoFromConfig_def int32_of_int_def)

subsection \<open>Build and image\<close>

lemma range_Services_example_wkr:
  "range_Services [(''example-wkr'', example_wkr)] Map.empty =
     Inr [''example-wkr'' \<mapsto> result_example_wkr]"
  by (simp add: protoEnumFromType_examples serviceProtoFromConfig_example_wkr)

text \<open>
  A document with both a build and an image key is converted, and the specification
  carries both; a document with neither is converted too, and the specification carries
  neither.
\<close>

theorem build_and_image_both_or_neither_accepted:
  "AppProtoFromYaml (unmarshals_to build_and_image_yaml) (Some []) = Inr \<lparr>
     porterv1_PorterApp.Name = ''js-test-app'',
     Env = Map.empty,
     Build = Some \<lparr> porterv1_Build.Context = ''./'', Method = ''docker'', Builder = '''',
                    Buildpacks = [], Dockerfile = ''./Dockerfile'' \<rparr>,
     Image = Some \<lparr> porterv1_AppImage.Repository = ''nginx'', Tag = ''latest'' \<rparr>,
     Services = [''example-wkr'' \<mapsto> result_example_wkr],
     Predeploy = None \<rparr> \<and>
   AppProtoFromYaml (unmarshals_to no_build_no_image_yaml) (Some []) = Inr \<lparr>
     porterv1_PorterApp.Name = ''js-test-app'',
     Env = Map.empty,
     Build = None,
     Image = None,
     Services = [''example-wkr'' \<mapsto> result_example_wkr],
     Predeploy = None \<rparr>"
  by (simp add: AppProtoFromYaml_def unmarshals_to_def build_and_image_yaml_def
      no_build_no_image_yaml_def range_Services_example_wkr del: range_Services.simps)

text \<open>
  C5, as the code has it. A build key populates the build variant and an image key the
  image variant, each on its own: the specification has a build exactly when the document
  has a build key, and an image exactly when it has an image key, with the document's
  values. Whether canonicalization fails does not depend on the two keys.
\<close>

theorem build_and_image_selected_independently:
  "(yaml_Unmarshal bytes = Inr y \<and>
    AppProtoFromYaml yaml_Unmarshal (Some bytes) = Inr a \<longrightarrow>
      porterv1_PorterApp.Build a =
        (case PorterYAML.Build y of
           None \<Rightarrow> None
         | Some b \<Rightarrow> Some \<lparr>
             porterv1_Build.Context = Build.Context b, Method = Build.Method b,
             Builder = Build.Builder b, Buildpacks = Build.Buildpacks b,
             Dockerfile = Build.Dockerfile b \<rparr>) \<and>
      porterv1_PorterApp.Image a =
        (case PorterYAML.Image y of
           None \<Rightarrow> None
         | Some i \<Rightarrow> Some \<lparr>
             porterv1_AppImage.Repository = Image.Repository i, Tag = Image.Tag i \<rparr>)) \<and>
   isl (AppProtoFromYaml (unmarshals_to (y \<lparr> PorterYAML.Build := bld, PorterYAML.Image := img \<rparr>))
          (Some bytes)) =
   isl (AppProtoFromYaml (unmarshals_to y) (Some bytes))"
proof (intro conjI impI)
  assume h: "yaml_Unmarshal bytes = Inr y \<and> AppProtoFromYaml yaml_Unmarshal (Some bytes) = Inr a"
  then have a: "AppProtoFromYaml yaml_Unmarshal (Some bytes) = Inr a" and
    y: "yaml_Unmarshal bytes = Inr y" by simp_all
  from a y show "porterv1_PorterApp.Build a =
      (case PorterYAML.Build y of
         None \<Rightarrow> None
       | Some b \<Rightarrow> Some \<lparr>
           porterv1_Build.Context = Build.Context b, Method = Build.Method b,
           Builder = Build.Builder b, Buildpacks = Build.Buildpacks b,
           Dockerfile = Build.Dockerfile b \<rparr>)"
    by (elim AppProtoFromYaml_Inr) simp
  from a y show "porterv1_PorterApp.Image a =
      (case PorterYAML.Image y of
         None \<Rightarrow> None
       | Some i \<Rightarrow> Some \<lparr>
           porterv1_AppImage.Repository = Image.Repository i, Tag = Image.Tag i \<rparr>)"
    by (elim AppProtoFromYaml_Inr) simp
next
  show "isl (AppProtoFromYaml
          (unmarshals_to (y \<lparr> PorterYAML.Build := bld, PorterYAML.Image := img \<rparr>)) (Some bytes)) =
        isl (AppProtoFromYaml (unmarshals_to y) (Some bytes))"
    unfolding AppProtoFromYaml_def unmarshals_to_def Let_def
    by (simp split: option.splits sum.splits)
qed

theorem build_and_image_selected_independently_witness:
  "unmarshals_to build_and_image_yaml [] = Inr build_and_image_yaml \<and>
   (\<exists>a. AppProtoFromYaml (unmarshals_to build_and_image_yaml) (Some []) = Inr a \<and>
        porterv1_PorterApp.Build a =
          Some \<lparr> porterv1_Build.Context = ''./'', Method = ''docker'', Builder = '''',
                 Buildpacks = [], Dockerfile = ''./Dockerfile'' \<rparr> \<and>
        porterv1_PorterApp.Image a =
          Some \<lparr> porterv1_AppImage.Repository = ''nginx'', Tag = ''latest'' \<rparr>)"
proof -
  obtain a where a: "AppProtoFromYaml (unmarshals_to build_and_image_yaml) (Some []) = Inr a"
    by (simp add: AppProtoFromYaml_def unmarshals_to_def build_and_image_yaml_def
        range_Services_example_wkr del: range_Services.simps)
  have y: "unmarshals_to build_and_image_yaml [] = Inr build_and_image_yaml"
    by (simp add: unmarshals_to_def)
  from build_and_image_selected_independently
    [of "unmarshals_to build_and_image_yaml" "[]" build_and_image_yaml a] a y
  have "porterv1_PorterApp.Build a =
          Some \<lparr> porterv1_Build.Context = ''./'', Method = ''docker'', Builder = '''',
                 Buildpacks = [], Dockerfile = ''./Dockerfile'' \<rparr>"
    and "porterv1_PorterApp.Image a =
          Some \<lparr> porterv1_AppImage.Repository = ''nginx'', Tag = ''latest'' \<rparr>"
    by (simp_all add: build_and_image_yaml_def)
  with a y show ?thesis by blast
qed

subsection \<open>Required keys\<close>

text \<open>A document with services and no name is converted, to a specification with the empty name.\<close>

theorem missing_name_accepted:
  "AppProtoFromYaml (unmarshals_to no_name_yaml) (Some []) = Inr \<lparr>
     porterv1_PorterApp.Name = '''',
     Env = Map.empty,
     Build = None,
     Image = Some \<lparr> porterv1_AppImage.Repository = ''nginx'', Tag = ''latest'' \<rparr>,
     Services = [''example-wkr'' \<mapsto> result_example_wkr],
     Predeploy = None \<rparr>"
  by (simp add: AppProtoFromYaml_def unmarshals_to_def no_name_yaml_def
      range_Services_example_wkr del: range_Services.simps)

text \<open>
  C6, as the code has it. Parsing fails on a nil document, on malformed syntax (the error of
  the YAML library, wrapped) and whenever the key services is absent. The name is copied
  as it is and plays no part in failure: a document without a name is converted with the
  empty name.
\<close>

theorem AppProtoFromYaml_failures:
  "AppProtoFromYaml yaml_Unmarshal None = Inl (TelemetryError None ''porter yaml is nil'') \<and>
   (yaml_Unmarshal bytes = Inl err \<longrightarrow>
      AppProtoFromYaml yaml_Unmarshal (Some bytes) =
        Inl (TelemetryError (Some err) ''error unmarshaling porter yaml'')) \<and>
   (yaml_Unmarshal bytes = Inr y \<and> PorterYAML.Services y = None \<longrightarrow>
      AppProtoFromYaml yaml_Unmarshal (Some bytes) =
        Inl (TelemetryError None ''porter yaml is missing services'')) \<and>
   (yaml_Unmarshal bytes = Inr y \<and> AppProtoFromYaml yaml_Unmarshal (Some bytes) = Inr a \<longrightarrow>
      porterv1_PorterApp.Name a = PorterYAML.Name y) \<and>
   isl (AppProtoFromYaml (unmarshals_to (y \<lparr> PorterYAML.Name := nm \<rparr>)) (Some bytes)) =
   isl (AppProtoFromYaml (unmarshals_to y) (Some bytes))"
proof (intro conjI impI)
  show "AppProtoFromYaml yaml_Unmarshal None = Inl (TelemetryError None ''porter yaml is nil'')"
    by (simp add: AppProtoFromYaml_def)
next
  assume "yaml_Unmarshal bytes = Inl err"
  then show "AppProtoFromYaml yaml_Unmarshal (Some bytes) =
      Inl (TelemetryError (Some err) ''error unmarshaling porter yaml'')"
    by (simp add: AppProtoFromYaml_def)
next
  assume "yaml_Unmarshal bytes = Inr y \<and> PorterYAML.Services y = None"
  then show "AppProtoFromYaml yaml_Unmarshal (Some bytes) =
      Inl (TelemetryError None ''porter yaml is missing services'')"
    by (simp add: AppProtoFromYaml_def Let_def)
next
  assume "yaml_Unmarshal bytes = Inr y \<and> AppProtoFromYaml yaml_Unmarshal (Some bytes) = Inr a"
  then have a: "AppProtoFromYaml yaml_Unmarshal (Some bytes) = Inr a" and
    y: "yaml_Unmarshal bytes = Inr y" by simp_all
  from a y show "porterv1_PorterApp.Name a = PorterYAML.Name y"
    by (elim AppProtoFromYaml_Inr) simp
next
  show "isl (AppProtoFromYaml (unmarshals_to (y \<lparr> PorterYAML.Name := nm \<rparr>)) (Some bytes)) =
        isl (AppProtoFromYaml (unmarshals_to y) (Some bytes))"
    unfolding AppProtoFromYaml_def unmarshals_to_def Let_def
    by (simp split: option.splits sum.splits)
qed

theorem AppProtoFromYaml_failures_witness:
  "AppProtoFromYaml (unmarshal_fails ''yaml: line 2: mapping values are not allowed'') (Some []) =
     Inl (TelemetryError (Some (YamlError ''yaml: line 2: mapping values are not allowed''))
            ''error unmarshaling porter yaml'') \<and>
   AppProtoFromYaml (unmarshals_to no_services_yaml) (Some []) =
     Inl (TelemetryError None ''porter yaml is missing services'') \<and>
   (\<exists>a. AppProtoFromYaml (unmarshals_to no_name_yaml) (Some []) = Inr a \<and>
        porterv1_PorterApp.Name a = '''')"
proof -
  have 1: "unmarshal_fails ''yaml: line 2: mapping values are not allowed'' [] =
      Inl (YamlError ''yaml: line 2: mapping values are not allowed'')"
    by (simp add: unmarshal_fails_def)
  have 2: "unmarshals_to no_services_yaml [] = Inr no_services_yaml \<and>
      PorterYAML.Services no_services_yaml = None"
    by (simp add: unmarshals_to_def no_services_yaml_def)
  obtain a where a: "AppProtoFromYaml (unmarshals_to no_name_yaml) (Some []) = Inr a"
    by (simp add: AppProtoFromYaml_def unmarshals_to_def no_name_yaml_def
        range_Services_example_wkr del: range_Services.simps)
  have 3: "unmarshals_to no_name_yaml [] = Inr no_name_yaml"
    by (simp add: unmarshals_to_def)
  from AppProtoFromYaml_failures
    [of "unmarshal_fails ''yaml: line 2: mapping values are not allowed''" "[]"
      "YamlError ''yaml: line 2: mapping values are not allowed''"] 1
  have f1: "AppProtoFromYaml (unmarshal_fails ''yaml: line 2: mapping values are not allowed'')
      (Some []) =
     Inl (TelemetryError (Some (YamlError ''yaml: line 2: mapping values are not allowed''))
            ''error unmarshaling porter yaml'')"
    by blast
  from AppProtoFromYaml_failures [of "unmarshals_to no_services_yaml" "[]" _ no_services_yaml] 2
  have f2: "AppProtoFromYaml (unmarshals_to no_services_yaml) (Some []) =
     Inl (TelemetryError None ''porter yaml is missing services'')"
    by blast
  from AppProtoFromYaml_failures [of "unmarshals_to no_name_yaml" "[]" _ no_name_yaml a] a 3
  have "porterv1_PorterApp.Name a = PorterYAML.Name no_name_yaml"
    by blast
  then have f3: "porterv1_PorterApp.Name a = ''''"
    by (simp add: no_name_yaml_def)
  from f1 f2 f3 a show ?thesis by blast
qed

subsection \<open>The invariant of every converted service\<close>

text \<open>
  C9. Every service of a successfully canonicalized document, and its pre-deploy service,
  carries exactly the configuration variant of its type: a web configuration for type
  web, a worker configuration for type worker, a job configuration for type job (the
  pre-deploy service always being a job). No service of a successful result has the
  unspecified type.
\<close>

theorem AppProtoFromYaml_config_matches_type:
  assumes "AppProtoFromYaml yaml_Unmarshal porterYamlBytes = Inr a"
  shows "(\<forall>n s. porterv1_PorterApp.Services a n = Some s \<longrightarrow>
            config_matches_type s \<and>
            porterv1_Service.Type s \<noteq> SERVICE_TYPE_UNSPECIFIED \<and>
            porterv1_Service.Type s \<in> {SERVICE_TYPE_WEB, SERVICE_TYPE_WORKER, SERVICE_TYPE_JOB}) \<and>
         (\<forall>p. porterv1_PorterApp.Predeploy a = Some p \<longrightarrow>
            config_matches_type p \<and> porterv1_Service.Type p = SERVICE_TYPE_JOB)"
proof (intro conjI allI impI)
  fix n s
  assume s: "porterv1_PorterApp.Services a n = Some s"
  from assms obtain entries m where
    m: "range_Services entries Map.empty = Inr m" "porterv1_PorterApp.Services a = m"
    by (elim AppProtoFromYaml_Inr)
  from s m(2) have "m n = Some s" by simp
  from range_Services_Inr [OF m(1) this] obtain service t where
    t: "protoEnumFromType n service = Inr t" and p: "serviceProtoFromConfig service t = Inr s"
    by auto
  from serviceProtoFromConfig_Inr [OF p] show "config_matches_type s"
    and "porterv1_Service.Type s \<noteq> SERVICE_TYPE_UNSPECIFIED"
    by simp_all
  from serviceProtoFromConfig_Inr(2) [OF p] protoEnumFromType_Inr [OF t]
  show "porterv1_Service.Type s \<in> {SERVICE_TYPE_WEB, SERVICE_TYPE_WORKER, SERVICE_TYPE_JOB}"
    by auto
next
  fix p
  assume p: "porterv1_PorterApp.Predeploy a = Some p"
  from AppProtoFromYaml_Predeploy [OF assms p]
  obtain pre where pre: "serviceProtoFromConfig pre SERVICE_TYPE_JOB = Inr p"
    by blast
  from serviceProtoFromConfig_Inr [OF pre]
  show "config_matches_type p" and "porterv1_Service.Type p = SERVICE_TYPE_JOB"
    by simp_all
qed

theorem AppProtoFromYaml_config_matches_type_witness:
  "AppProtoFromYaml (unmarshals_to v2_input_nobuild) (Some []) = Inr result_nobuild \<and>
   porterv1_PorterApp.Services result_nobuild ''example-web'' = Some result_example_web \<and>
   config_matches_type result_example_web \<and>
   porterv1_Service.Type result_example_web \<noteq> SERVICE_TYPE_UNSPECIFIED \<and>
   porterv1_PorterApp.Predeploy result_nobuild = Some result_predeploy \<and>
   config_matches_type result_predeploy \<and>
   porterv1_Service.Type result_predeploy = SERVICE_TYPE_JOB"
proof -
  have a: "AppProtoFromYaml (unmarshals_to v2_input_nobuild) (Some []) = Inr result_nobuild"
    by (rule AppProtoFromYaml_v2_input_nobuild)
  have p: "porterv1_PorterApp.Predeploy result_nobuild = Some result_predeploy"
    by (simp add: result_nobuild_def)
  from AppProtoFromYaml_config_matches_type [OF a] result_nobuild_services(2) p a
  show ?thesis by blast
qed

section \<open>Form data to canonical specification\<close>

text \<open>
  C10. Converting a form to a canonical specification never sets both an image and a
  build. With a github source the specification has the build of the form and no image;
  with a docker-registry source it has the image of the source, no build and no
  pre-deploy service, whatever services the form contains.
\<close>

theorem clientAppToProto_build_xor_image:
  "(case PorterAppFormData.source data of
      Source_github src \<Rightarrow>
        contracts_PorterApp.build (clientAppToProto L data) =
          Some (clientBuildToProto (ClientPorterApp.build (PorterAppFormData.app data))) \<and>
        contracts_PorterApp.image (clientAppToProto L data) = None
    | Source_docker_registry src \<Rightarrow>
        contracts_PorterApp.image (clientAppToProto L data) =
          Some \<lparr> contracts_AppImage.repository = SourceOptions_image.repository src,
                 tag = SourceOptions_image.tag src \<rparr> \<and>
        contracts_PorterApp.build (clientAppToProto L data) = None \<and>
        contracts_PorterApp.predeploy (clientAppToProto L data) = None) \<and>
   (contracts_PorterApp.build (clientAppToProto L data) = None \<or>
    contracts_PorterApp.image (clientAppToProto L data) = None)"
  unfolding clientAppToProto_def Let_def
  by (simp split: SourceOptions.splits)

lemma clientAppToProto_examples:
  "contracts_PorterApp.predeploy (clientAppToProto example_services example_registry_form) = None"
  "contracts_PorterApp.build (clientAppToProto example_services example_registry_form) = None"
  "contracts_PorterApp.image (clientAppToProto example_services example_registry_form) =
     Some \<lparr> contracts_AppImage.repository = ''nginx'', tag = ''latest'' \<rparr>"
  "contracts_PorterApp.image (clientAppToProto example_services example_github_form) = None"
  "contracts_PorterApp.build (clientAppToProto example_services example_github_form) =
     Some \<lparr> method = ''pack'', context = ''./'', builder = ''heroku/buildpacks:20'',
            buildpacks = [], dockerfile = '''' \<rparr>"
  "contracts_PorterApp.predeploy (clientAppToProto example_services example_github_form) =
     Some \<lparr> porterv1_Service.Run = ''make migrate'', Type = SERVICE_TYPE_JOB, Instances = 0,
            CpuCores = 0, RamMegabytes = 0, Port = 0, Config = None \<rparr>"
  by (simp_all add: clientAppToProto_def Let_def example_registry_form_def
      example_github_form_def example_app_def example_services_def example_client_service_def
      clientBuildToProto_def)

section \<open>Canonical specification to client model\<close>

subsection \<open>The shape of the result\<close>

lemma map_filter_Some_append:
  "List.map_filter (\<lambda>x. x) (map Some xs @ [p]) =
     xs @ (case p of None \<Rightarrow> [] | Some y \<Rightarrow> [y])"
  by (induction xs) (simp_all split: option.splits)

lemma clientAppFromProto_services:
  "ClientPorterApp.services (clientAppFromProto L proto overrides) =
     map (\<lambda>(n, service). reconciled_service L overrides n service)
       (contracts_PorterApp.services proto) @
     reconciled_predeploy L proto overrides"
proof -
  have m: "map (\<lambda>svc. case (case overrides of None \<Rightarrow> None
                 | Some ov \<Rightarrow> List.find (\<lambda>s. ServiceField.value (ClientService.name s) =
                        SerializedService.name svc) (DetectedServices.services ov)) of
              None \<Rightarrow> deserializeService L svc None
            | Some ovr \<Rightarrow> deserializeService L svc (Some (serializeService L ovr)))
          (map (\<lambda>(n, service). serializedServiceFromProto L n service None)
             (contracts_PorterApp.services proto)) =
        map (\<lambda>(n, service). reconciled_service L overrides n service)
          (contracts_PorterApp.services proto)"
    by (simp add: reconciled_service_def find_override_def Let_def case_prod_unfold comp_def)
  show ?thesis
    unfolding clientAppFromProto_def Let_def m map_filter_Some_append
    by (simp add: reconciled_predeploy_def overrides_predeploy_def split: option.splits)
qed

lemma clientAppFromProto_fields:
  "ClientPorterApp.name (clientAppFromProto L proto overrides) = contracts_PorterApp.name proto"
  "ClientPorterApp.env (clientAppFromProto L proto overrides) = contracts_PorterApp.env proto"
  "ClientPorterApp.build (clientAppFromProto L proto overrides) =
     (case clientBuildFromProto (contracts_PorterApp.build proto) of
        Some b \<Rightarrow> b
      | None \<Rightarrow> BuildOptions_pack ''./'' [] '''')"
  unfolding clientAppFromProto_def Let_def
  by (simp_all split: option.splits)

lemma clientAppFromProto_eqI:
  assumes "ClientPorterApp.services (clientAppFromProto L proto ov1) =
           ClientPorterApp.services (clientAppFromProto L proto ov2)"
  shows "clientAppFromProto L proto ov1 = clientAppFromProto L proto ov2"
proof (rule ClientPorterApp.equality)
  show "ClientPorterApp.more (clientAppFromProto L proto ov1) =
        ClientPorterApp.more (clientAppFromProto L proto ov2)"
    by simp
qed (simp_all add: clientAppFromProto_fields assms)

lemma clientAppFromProto_length:
  "length (ClientPorterApp.services (clientAppFromProto L proto overrides)) =
     length (contracts_PorterApp.services proto) +
     (if contracts_PorterApp.predeploy proto \<noteq> None \<and> overrides_predeploy overrides \<noteq> None
      then 1 else 0)"
  by (simp add: clientAppFromProto_services reconciled_predeploy_def split: option.splits)

lemma reconciled_service_name:
  assumes "keeps_proto_name L" and "keeps_service_name L"
  shows "ServiceField.value (ClientService.name (reconciled_service L overrides n service)) = n"
  using assms
  by (simp add: reconciled_service_def keeps_proto_name_def keeps_service_name_def Let_def
      split: option.splits)

lemma reconciled_predeploy_names:
  assumes "keeps_proto_name L" and "keeps_service_name L"
  shows "(\<lambda>c. ServiceField.value (ClientService.name c)) ` set (reconciled_predeploy L proto overrides) =
     (if contracts_PorterApp.predeploy proto \<noteq> None \<and> overrides_predeploy overrides \<noteq> None
      then {''pre-deploy''} else {})"
  using assms
  by (auto simp: reconciled_predeploy_def keeps_proto_name_def keeps_service_name_def
      split: option.splits)

lemma reconciled_names:
  assumes "keeps_proto_name L" and "keeps_service_name L"
  shows "(\<lambda>c. ServiceField.value (ClientService.name c)) `
           set (ClientPorterApp.services (clientAppFromProto L proto overrides)) =
         fst ` set (contracts_PorterApp.services proto) \<union>
         (if contracts_PorterApp.predeploy proto \<noteq> None \<and> overrides_predeploy overrides \<noteq> None
          then {''pre-deploy''} else {})"
proof -
  have "(\<lambda>c. ServiceField.value (ClientService.name c)) `
          set (map (\<lambda>(n, service). reconciled_service L overrides n service)
                 (contracts_PorterApp.services proto)) =
        fst ` set (contracts_PorterApp.services proto)"
    using reconciled_service_name [OF assms, of overrides]
    by (force simp: image_iff case_prod_unfold)
  then show ?thesis
    unfolding clientAppFromProto_services
    using reconciled_predeploy_names [OF assms, of proto overrides]
    by (simp add: image_Un)
qed

subsection \<open>Overrides of services that the specification does not declare\<close>

lemma find_append_skip:
  "\<not> P s \<Longrightarrow> List.find P (xs @ s # ys) = List.find P (xs @ ys)"
  by (induction xs) simp_all

lemma find_override_stale:
  assumes "ServiceField.value (ClientService.name s) \<noteq> n"
  shows "find_override (Some (ov \<lparr> DetectedServices.services := xs @ s # ys \<rparr>)) n =
         find_override (Some (ov \<lparr> DetectedServices.services := xs @ ys \<rparr>)) n"
  using assms by (simp add: find_override_def find_append_skip)

lemma reconciled_service_stale:
  assumes "keeps_proto_name L" and "ServiceField.value (ClientService.name s) \<noteq> n"
  shows "reconciled_service L (Some (ov \<lparr> DetectedServices.services := xs @ s # ys \<rparr>)) n service =
         reconciled_service L (Some (ov \<lparr> DetectedServices.services := xs @ ys \<rparr>)) n service"
proof -
  from assms(1) have "SerializedService.name (serializedServiceFromProto L n service None) = n"
    by (simp add: keeps_proto_name_def)
  with find_override_stale [OF assms(2)] show ?thesis
    by (simp add: reconciled_service_def Let_def)
qed

lemma stale_override_ignored:
  assumes "keeps_proto_name L"
    and "ServiceField.value (ClientService.name s) \<notin> fst ` set (contracts_PorterApp.services proto)"
  shows "clientAppFromProto L proto (Some (ov \<lparr> DetectedServices.services := xs @ s # ys \<rparr>)) =
         clientAppFromProto L proto (Some (ov \<lparr> DetectedServices.services := xs @ ys \<rparr>))"
proof (rule clientAppFromProto_eqI)
  have "map (\<lambda>(n, service).
          reconciled_service L (Some (ov \<lparr> DetectedServices.services := xs @ s # ys \<rparr>)) n service)
          (contracts_PorterApp.services proto) =
        map (\<lambda>(n, service).
          reconciled_service L (Some (ov \<lparr> DetectedServices.services := xs @ ys \<rparr>)) n service)
          (contracts_PorterApp.services proto)"
  proof (rule map_cong [OF refl])
    fix e assume e: "e \<in> set (contracts_PorterApp.services proto)"
    then have in_keys: "fst e \<in> fst ` set (contracts_PorterApp.services proto)" by (rule imageI)
    have "ServiceField.value (ClientService.name s) \<noteq> fst e"
    proof
      assume "ServiceField.value (ClientService.name s) = fst e"
      with in_keys have
        "ServiceField.value (ClientService.name s) \<in> fst ` set (contracts_PorterApp.services proto)"
        by simp
      with assms(2) show False by contradiction
    qed
    from reconciled_service_stale [OF assms(1) this]
    show "(case e of (n, service) \<Rightarrow>
            reconciled_service L (Some (ov \<lparr> DetectedServices.services := xs @ s # ys \<rparr>)) n service) =
          (case e of (n, service) \<Rightarrow>
            reconciled_service L (Some (ov \<lparr> DetectedServices.services := xs @ ys \<rparr>)) n service)"
      by (simp add: case_prod_unfold)
  qed
  moreover have "reconciled_predeploy L proto (Some (ov \<lparr> DetectedServices.services := xs @ s # ys \<rparr>)) =
      reconciled_predeploy L proto (Some (ov \<lparr> DetectedServices.services := xs @ ys \<rparr>))"
    by (simp add: reconciled_predeploy_def overrides_predeploy_def)
  ultimately show "ClientPorterApp.services
        (clientAppFromProto L proto (Some (ov \<lparr> DetectedServices.services := xs @ s # ys \<rparr>))) =
      ClientPorterApp.services
        (clientAppFromProto L proto (Some (ov \<lparr> DetectedServices.services := xs @ ys \<rparr>)))"
    by (simp add: clientAppFromProto_services)
qed

lemma stale_predeploy_ignored:
  assumes "contracts_PorterApp.predeploy proto = None"
  shows "clientAppFromProto L proto (Some ov) =
         clientAppFromProto L proto (Some (ov \<lparr> DetectedServices.predeploy := None \<rparr>))"
proof (rule clientAppFromProto_eqI)
  show "ClientPorterApp.services (clientAppFromProto L proto (Some ov)) =
        ClientPorterApp.services
          (clientAppFromProto L proto (Some (ov \<lparr> DetectedServices.predeploy := None \<rparr>)))"
    using assms
    by (simp add: clientAppFromProto_services reconciled_service_def find_override_def
        reconciled_predeploy_def overrides_predeploy_def split: option.splits)
qed

lemma example_services_laws:
  "keeps_proto_name example_services" "keeps_service_name example_services"
  by (simp_all add: keeps_proto_name_def keeps_service_name_def example_services_def)

text \<open>
  C8. A service that the prior overrides hold but the canonical specification does not
  declare is absent from the reconciled client model. The model has exactly one service
  for each service of the specification, under its name, and the pre-deploy service when
  both the specification and the overrides have one; an override whose name the
  specification does not declare can be removed from the prior overrides without changing
  the model; and the pre-deploy override is dropped when the specification has no
  pre-deploy service. (The names are those that \<open>serializedServiceFromProto\<close> and
  \<open>deserializeService\<close> give the services; the two functions are asked to keep the name
  they are given.)
\<close>

theorem stale_overrides_dropped:
  "(keeps_proto_name L \<and> keeps_service_name L \<longrightarrow>
      (\<lambda>c. ServiceField.value (ClientService.name c)) `
        set (ClientPorterApp.services (clientAppFromProto L proto overrides)) =
      fst ` set (contracts_PorterApp.services proto) \<union>
      (if contracts_PorterApp.predeploy proto \<noteq> None \<and> overrides_predeploy overrides \<noteq> None
       then {''pre-deploy''} else {})) \<and>
   (keeps_proto_name L \<and>
    ServiceField.value (ClientService.name s) \<notin> fst ` set (contracts_PorterApp.services proto) \<longrightarrow>
      clientAppFromProto L proto (Some (ov \<lparr> DetectedServices.services := xs @ s # ys \<rparr>)) =
      clientAppFromProto L proto (Some (ov \<lparr> DetectedServices.services := xs @ ys \<rparr>))) \<and>
   (contracts_PorterApp.predeploy proto = None \<longrightarrow>
      clientAppFromProto L proto (Some ov) =
      clientAppFromProto L proto (Some (ov \<lparr> DetectedServices.predeploy := None \<rparr>))) \<and>
   length (ClientPorterApp.services (clientAppFromProto L proto overrides)) =
     length (contracts_PorterApp.services proto) +
     (if contracts_PorterApp.predeploy proto \<noteq> None \<and> overrides_predeploy overrides \<noteq> None
      then 1 else 0)"
proof (intro conjI impI)
  assume "keeps_proto_name L \<and> keeps_service_name L"
  then show "(\<lambda>c. ServiceField.value (ClientService.name c)) `
        set (ClientPorterApp.services (clientAppFromProto L proto overrides)) =
      fst ` set (contracts_PorterApp.services proto) \<union>
      (if contracts_PorterApp.predeploy proto \<noteq> None \<and> overrides_predeploy overrides \<noteq> None
       then {''pre-deploy''} else {})"
    using reconciled_names by blast
next
  assume "keeps_proto_name L \<and>
    ServiceField.value (ClientService.name s) \<notin> fst ` set (contracts_PorterApp.services proto)"
  then show "clientAppFromProto L proto (Some (ov \<lparr> DetectedServices.services := xs @ s # ys \<rparr>)) =
      clientAppFromProto L proto (Some (ov \<lparr> DetectedServices.services := xs @ ys \<rparr>))"
    using stale_override_ignored by blast
next
  assume "contracts_PorterApp.predeploy proto = None"
  then show "clientAppFromProto L proto (Some ov) =
      clientAppFromProto L proto (Some (ov \<lparr> DetectedServices.predeploy := None \<rparr>))"
    by (rule stale_predeploy_ignored)
next
  show "length (ClientPorterApp.services (clientAppFromProto L proto overrides)) =
     length (contracts_PorterApp.services proto) +
     (if contracts_PorterApp.predeploy proto \<noteq> None \<and> overrides_predeploy overrides \<noteq> None
      then 1 else 0)"
    by (rule clientAppFromProto_length)
qed

lemma example_overrides_split:
  "example_overrides \<lparr> DetectedServices.services :=
     [example_client_service ''example-web'' ''npm start'' ''web''] @
     example_client_service ''old-api'' ''./api'' ''web'' # [] \<rparr> = example_overrides"
  by (simp add: example_overrides_def)



theorem stale_overrides_dropped_witness:
  "keeps_proto_name example_services \<and> keeps_service_name example_services \<and>
   (\<lambda>c. ServiceField.value (ClientService.name c)) `
     set (ClientPorterApp.services
            (clientAppFromProto example_services example_proto (Some example_overrides))) =
   {''example-web'', ''example-wkr'', ''pre-deploy''} \<and>
   ServiceField.value (ClientService.name (example_client_service ''old-api'' ''./api'' ''web'')) \<notin>
     fst ` set (contracts_PorterApp.services example_proto) \<and>
   clientAppFromProto example_services example_proto (Some example_overrides) =
   clientAppFromProto example_services example_proto
     (Some (example_overrides \<lparr> DetectedServices.services :=
        [example_client_service ''example-web'' ''npm start'' ''web''] \<rparr>)) \<and>
   contracts_PorterApp.predeploy example_proto_no_predeploy = None \<and>
   clientAppFromProto example_services example_proto_no_predeploy (Some example_overrides) =
   clientAppFromProto example_services example_proto_no_predeploy
     (Some (example_overrides \<lparr> DetectedServices.predeploy := None \<rparr>))"
proof -
  note laws = example_services_laws
  have stale:
    "ServiceField.value (ClientService.name (example_client_service ''old-api'' ''./api'' ''web'')) \<notin>
       fst ` set (contracts_PorterApp.services example_proto)"
    by (simp add: example_client_service_def example_proto_def)
  have nopre: "contracts_PorterApp.predeploy example_proto_no_predeploy = None"
    by (simp add: example_proto_no_predeploy_def)
  have pre: "contracts_PorterApp.predeploy example_proto \<noteq> None \<and>
      overrides_predeploy (Some example_overrides) \<noteq> None"
    by (simp add: example_proto_def overrides_predeploy_def example_overrides_def)
  have keys: "fst ` set (contracts_PorterApp.services example_proto) =
      {''example-web'', ''example-wkr''}"
    by (simp add: example_proto_def)
  from stale_overrides_dropped
    [where L = example_services and proto = example_proto
      and overrides = "Some example_overrides"] laws pre keys
  have names: "(\<lambda>c. ServiceField.value (ClientService.name c)) `
     set (ClientPorterApp.services
            (clientAppFromProto example_services example_proto (Some example_overrides))) =
     {''example-web'', ''example-wkr'', ''pre-deploy''}"
    by auto
  from stale_overrides_dropped
    [where L = example_services and proto = example_proto
      and s = "example_client_service ''old-api'' ''./api'' ''web''"
      and ov = example_overrides
      and xs = "[example_client_service ''example-web'' ''npm start'' ''web'']"
      and ys = "[]"] laws stale
  have ignored: "clientAppFromProto example_services example_proto (Some example_overrides) =
     clientAppFromProto example_services example_proto
       (Some (example_overrides \<lparr> DetectedServices.services :=
          [example_client_service ''example-web'' ''npm start'' ''web''] \<rparr>))"
    unfolding example_overrides_split by simp
  from stale_overrides_dropped
    [where L = example_services and proto = example_proto_no_predeploy
      and ov = example_overrides] nopre
  have dropped:
    "clientAppFromProto example_services example_proto_no_predeploy (Some example_overrides) =
     clientAppFromProto example_services example_proto_no_predeploy
       (Some (example_overrides \<lparr> DetectedServices.predeploy := None \<rparr>))"
    by blast
  from laws names stale ignored nopre dropped show ?thesis by blast
qed

subsection \<open>Reconciling twice\<close>





end
